theory Spec2Isabelle
  imports Complex_Main "HOL-Library.Multiset"
begin

section \<open>Data model\<close>

text \<open>
  The application is a set of Django views (\<^verbatim>\<open>blog/views/views.py\<close> and
  \<^verbatim>\<open>blog/views/auth.py\<close>) over four tables. A table is the list of its rows; a queryset
  that is evaluated is a list of rows.
\<close>

text \<open>
  Modelled from the spec: the declarations of \<^verbatim>\<open>blog/models.py\<close> (Product, Customer,
  Order) are not part of the sources. Section 3 of the specification gives the fields:
  a product has an id, a unique slug and a decimal price; a customer has an id, a name,
  an email, a phone and a billing address; an order references one customer and one
  product and has an integer quantity. A decimal is an exact rational here.
\<close>

record product =
  product_pk :: int
  slug :: string
  price :: rat

record customer =
  customer_pk :: int
  name :: string
  email :: string
  phone :: string
  billing_address :: string

record order =
  order_pk :: int
  customer_id :: int
  product_id :: int
  quantity :: int

record db =
  products :: "product list"
  customers :: "customer list"
  orders :: "order list"

text \<open>
  The exceptions the views can meet. \<open>Http404\<close> is the one the framework turns into a
  404 response; every other one leaves a view that does not catch it.
\<close>

datatype exn =
    Http404 | DoesNotExist | TypeError | ValueError | OverflowError | IntegrityError | SMTPException

text \<open>What the request handler makes of a view: its value, a 404 page, or a failure.\<close>

datatype 'a outcome = Ok 'a | NotFound404 | Unhandled exn

definition dispatch :: "exn + 'a \<Rightarrow> 'a outcome" where
  "dispatch r =
     (case r of
        Inr x \<Rightarrow> Ok x
      | Inl e \<Rightarrow> (if e = Http404 then NotFound404 else Unhandled e))"

section \<open>The platform\<close>

text \<open>
  What the sources leave to Python and to the database engine, taken as parameters:
  \<^item> \<open>py_int\<close> is \<^verbatim>\<open>int(s)\<close> on a string, with \<open>None\<close> for \<open>ValueError\<close>;
  \<^item> \<open>casefold\<close> is the folding of letters that the engine's case-insensitive match
    applies to both of its sides;
  \<^item> \<open>customer_rows\<close> and \<open>product_rows\<close> give the order in which the engine returns the
    rows of a query: the views' queries have no \<^verbatim>\<open>ORDER BY\<close>, and for the customers the
    order may depend on the search the query carries;
  \<^item> \<open>Avg\<close> is the engine's \<^verbatim>\<open>AVG\<close> over a column of decimals: NULL (\<open>None\<close>) over no row,
    and otherwise the mean as far as the engine's arithmetic gives it.
\<close>

record platform =
  py_int :: "string \<Rightarrow> int option"
  casefold :: "string \<Rightarrow> string"
  customer_rows :: "string option \<Rightarrow> customer list \<Rightarrow> customer list"
  product_rows :: "product list \<Rightarrow> product list"
  Avg :: "rat list \<Rightarrow> rat option"

section \<open>The query layer\<close>

text \<open>
  \<^verbatim>\<open>Sum(...)\<close> is SQL's SUM: NULL values do not count, and the sum of no value is NULL
  (Python's \<^verbatim>\<open>None\<close>), not zero. It is \<open>Sum_agg\<close> here, since \<open>Sum\<close> is the sum over a set
  in HOL. The sum is the exact one: what an engine that adds in floating point returns
  for long decimals is not modelled.
\<close>

definition Sum_agg :: "'a::monoid_add list \<Rightarrow> 'a option" where
  "Sum_agg vs = (if vs = [] then None else Some (sum_list vs))"

text \<open>
  \<^verbatim>\<open>F('order__quantity') * F('order__product__price')\<close> over the rows that the customer
  \<open>cid\<close> joins to: one value for each order of the customer and each product row the
  order's foreign key matches. An order that matched no product would give NULL, which
  SUM skips, so it gives no value.
\<close>

definition order_values :: "db \<Rightarrow> order \<Rightarrow> rat list" where
  "order_values d ord =
     map (\<lambda>p. of_int (quantity ord) * price p)
       (filter (\<lambda>p. product_pk p = product_id ord) (products d))"

definition revenue_values :: "db \<Rightarrow> int \<Rightarrow> rat list" where
  "revenue_values d cid =
     concat (map (order_values d) (filter (\<lambda>ord. customer_id ord = cid) (orders d)))"

text \<open>
  \<^verbatim>\<open>queryset.annotate(total_revenue=Sum(F('order__quantity') * F('order__product__price')))\<close>:
  every customer of the queryset, once, in the queryset's order, with its sum.
\<close>

definition annotate_total_revenue :: "db \<Rightarrow> customer list \<Rightarrow> (customer \<times> rat option) list" where
  "annotate_total_revenue d qs = map (\<lambda>c. (c, Sum_agg (revenue_values d (customer_pk c)))) qs"

text \<open>
  \<^verbatim>\<open>field__icontains=q\<close>: \<open>q\<close> occurs in the field as a substring, once the engine has
  folded the letters of both.
\<close>

fun startswith :: "string \<Rightarrow> string \<Rightarrow> bool" where
  "startswith s [] = True"
| "startswith [] (q # qs) = False"
| "startswith (c # cs) (q # qs) = (c = q \<and> startswith cs qs)"

fun contains :: "string \<Rightarrow> string \<Rightarrow> bool" where
  "contains [] q = (q = [])"
| "contains (c # cs) q = (startswith (c # cs) q \<or> contains cs q)"

definition icontains :: "platform \<Rightarrow> string \<Rightarrow> string \<Rightarrow> bool" where
  "icontains pf field q = contains (casefold pf field) (casefold pf q)"

text \<open>
  \<^verbatim>\<open>get_object_or_404(Customer, id=pk)\<close> raises \<open>Http404\<close> where \<^verbatim>\<open>Customer.objects.get(id=pk)\<close>
  raises \<open>DoesNotExist\<close>.
\<close>

definition objects_get :: "('a \<Rightarrow> bool) \<Rightarrow> 'a list \<Rightarrow> exn + 'a" where
  "objects_get P rows = (case find P rows of None \<Rightarrow> Inl DoesNotExist | Some x \<Rightarrow> Inr x)"

definition get_object_or_404 :: "('a \<Rightarrow> bool) \<Rightarrow> 'a list \<Rightarrow> exn + 'a" where
  "get_object_or_404 P rows =
     (case objects_get P rows of
        Inl e \<Rightarrow> (if e = DoesNotExist then Inl Http404 else Inl e)
      | Inr x \<Rightarrow> Inr x)"

section \<open>Customer views\<close>

text \<open>
  \<^verbatim>\<open>CustomersListView.get_queryset\<close>. The search parameter is \<^verbatim>\<open>request.GET.get('search')\<close>:
  \<open>None\<close> when absent; the filter is applied when the string is not empty. The rows come
  in the order the engine gives this query.
\<close>

definition CustomersListView_get_queryset ::
    "platform \<Rightarrow> string option \<Rightarrow> db \<Rightarrow> (customer \<times> rat option) list" where
  "CustomersListView_get_queryset pf search_query d =
     (let queryset = customers d;
          queryset =
            (case search_query of
               None \<Rightarrow> queryset
             | Some q \<Rightarrow>
                 if q \<noteq> []
                 then filter (\<lambda>c. icontains pf (name c) q \<or> icontains pf (email c) q) queryset
                 else queryset)
      in annotate_total_revenue d (customer_rows pf search_query queryset))"

text \<open>\<^verbatim>\<open>CustomerDetailView\<close>: the object, and the context with the customer's revenue.\<close>

definition CustomerDetailView_get_object :: "int \<Rightarrow> db \<Rightarrow> exn + customer" where
  "CustomerDetailView_get_object pk d = get_object_or_404 (\<lambda>c. customer_pk c = pk) (customers d)"

record detail_context =
  ctx_customer :: customer
  ctx_total_revenue :: "rat option"

definition CustomerDetailView_get_context_data :: "int \<Rightarrow> db \<Rightarrow> exn + detail_context" where
  "CustomerDetailView_get_context_data pk d =
     (case CustomerDetailView_get_object pk d of
        Inl e \<Rightarrow> Inl e
      | Inr customer \<Rightarrow>
          Inr \<lparr>ctx_customer = customer,
               ctx_total_revenue =
                 Sum_agg (concat (map (order_values d)
                   (filter (\<lambda>ord. customer_id ord = customer_pk customer) (orders d))))\<rparr>)"

section \<open>Export\<close>

text \<open>
  The Python values of an exported cell. The sum of a decimal column is a
  \<^verbatim>\<open>decimal.Decimal\<close>, and NULL is \<^verbatim>\<open>None\<close>.
\<close>

datatype pyval = PNone | PInt int | PStr string | PDecimal rat

definition py_of_revenue :: "rat option \<Rightarrow> pyval" where
  "py_of_revenue r = (case r of None \<Rightarrow> PNone | Some v \<Rightarrow> PDecimal v)"

text \<open>
  A response body: a text, the rows given to the CSV writer, the object that was dumped
  as JSON, or a workbook's one sheet (its title and rows).
\<close>

datatype body =
    Text string
  | Csv "pyval list list"
  | Json "(string \<times> pyval) list list"
  | Xlsx string "pyval list list"

record response =
  status :: nat
  content_type :: string
  content_disposition :: "string option"
  content :: body

definition export_csv :: "db \<Rightarrow> response" where
  \<open>export_csv d =
     (let customers = annotate_total_revenue d (customers d)
      in \<lparr>status = 200, content_type = ''text/csv'',
          content_disposition = Some ''attachment; filename="customers.csv"'',
          content = Csv
            ([PStr ''id'', PStr ''name'', PStr ''email'', PStr ''phone'', PStr ''billing_address'',
              PStr ''total_revenue'']
             # map (\<lambda>(customer, total_revenue).
                  [PInt (customer_pk customer), PStr (name customer), PStr (email customer),
                   PStr (phone customer), PStr (billing_address customer),
                   py_of_revenue total_revenue]) customers)\<rparr>)\<close>

text \<open>
  \<^verbatim>\<open>json.dumps\<close> has no encoding for a \<^verbatim>\<open>Decimal\<close>: it raises \<open>TypeError\<close>. \<^verbatim>\<open>None\<close>, integers
  and strings are dumped.
\<close>

fun json_serializable :: "pyval \<Rightarrow> bool" where
  "json_serializable (PDecimal v) = False"
| "json_serializable v = True"

definition json_dumps :: "(string \<times> pyval) list list \<Rightarrow> exn + body" where
  "json_dumps data =
     (if list_all (\<lambda>obj. list_all (\<lambda>kv. json_serializable (snd kv)) obj) data
      then Inr (Json data) else Inl TypeError)"

definition export_json_data :: "db \<Rightarrow> (string \<times> pyval) list list" where
  "export_json_data d =
     map (\<lambda>(customer, total_revenue).
        [(''id'', PInt (customer_pk customer)), (''name'', PStr (name customer)),
         (''email'', PStr (email customer)), (''phone'', PStr (phone customer)),
         (''billing_address'', PStr (billing_address customer)),
         (''total_revenue'', py_of_revenue total_revenue)])
      (annotate_total_revenue d (customers d))"

definition export_json :: "db \<Rightarrow> exn + response" where
  \<open>export_json d =
     (let data = export_json_data d
      in case json_dumps data of
           Inl e \<Rightarrow> Inl e
         | Inr dumped \<Rightarrow>
             Inr \<lparr>status = 200, content_type = ''application/json'',
                  content_disposition = Some ''attachment; filename="customers.json"'',
                  content = dumped\<rparr>)\<close>

definition export_xlsx :: "db \<Rightarrow> response" where
  \<open>export_xlsx d =
     (let headers = [PStr ''id'', PStr ''name'', PStr ''email'', PStr ''phone'',
                     PStr ''billing_address'', PStr ''total_revenue''];
          customers = annotate_total_revenue d (customers d)
      in \<lparr>status = 200, content_type = ''application/ms-excel'',
          content_disposition = Some ''attachment; filename="customers.xlsx"'',
          content = Xlsx ''Customers''
            (headers
             # map (\<lambda>(customer, total_revenue).
                  [PInt (customer_pk customer), PStr (name customer), PStr (email customer),
                   PStr (phone customer), PStr (billing_address customer),
                   py_of_revenue total_revenue]) customers)\<rparr>)\<close>

text \<open>
  \<^verbatim>\<open>ExportDataView.get\<close>. The parameter is \<^verbatim>\<open>request.GET.get('format', 'csv')\<close>: the
  default stands for an absent parameter.
\<close>

definition ExportDataView_get :: "string option \<Rightarrow> db \<Rightarrow> exn + response" where
  "ExportDataView_get format_param d =
     (let format = (case format_param of None \<Rightarrow> ''csv'' | Some f \<Rightarrow> f)
      in if format = ''csv'' then Inr (export_csv d)
         else if format = ''json'' then export_json d
         else if format = ''xlsx'' then Inr (export_xlsx d)
         else Inr \<lparr>status = 404, content_type = ''text/html; charset=utf-8'',
                   content_disposition = None, content = Text ''Bad requests''\<rparr>)"

section \<open>Pagination\<close>

text \<open>
  The argument of \<^verbatim>\<open>Paginator.validate_number\<close>: \<^verbatim>\<open>None\<close> or a string as
  \<^verbatim>\<open>request.GET.get('page')\<close> gives it, or an integer. \<open>int_of_arg\<close> is \<^verbatim>\<open>int(number)\<close>,
  with \<open>None\<close> for \<open>TypeError\<close> (on \<^verbatim>\<open>None\<close>) and \<open>ValueError\<close> (on a string).
\<close>

datatype page_arg = PageNone | PageStr string | PageInt int

fun int_of_arg :: "platform \<Rightarrow> page_arg \<Rightarrow> int option" where
  "int_of_arg pf PageNone = None"
| "int_of_arg pf (PageStr s) = py_int pf s"
| "int_of_arg pf (PageInt n) = Some n"

fun GET_get :: "string option \<Rightarrow> page_arg" where
  "GET_get None = PageNone"
| "GET_get (Some s) = PageStr s"

datatype page_exn = PageNotAnInteger | EmptyPage

text \<open>
  \<^verbatim>\<open>django.core.paginator.Paginator\<close>, with no orphans and an empty first page allowed
  (the defaults, which the views keep).
\<close>

record 'a paginator =
  object_list :: "'a list"
  per_page :: nat

definition Paginator :: "'a list \<Rightarrow> nat \<Rightarrow> 'a paginator" where
  "Paginator xs n = \<lparr>object_list = xs, per_page = n\<rparr>"

definition Paginator_count :: "'a paginator \<Rightarrow> nat" where
  "Paginator_count p = length (object_list p)"

definition num_pages :: "'a paginator \<Rightarrow> nat" where
  "num_pages p = (let hits = max 1 (Paginator_count p) in (hits + per_page p - 1) div per_page p)"

definition validate_number :: "platform \<Rightarrow> 'a paginator \<Rightarrow> page_arg \<Rightarrow> page_exn + int" where
  "validate_number pf p number =
     (case int_of_arg pf number of
        None \<Rightarrow> Inl PageNotAnInteger
      | Some n \<Rightarrow>
          if n < 1 then Inl EmptyPage
          else if n > int (num_pages p) then Inl EmptyPage
          else Inr n)"

record 'a page =
  number :: int
  page_object_list :: "'a list"

definition page :: "platform \<Rightarrow> 'a paginator \<Rightarrow> page_arg \<Rightarrow> page_exn + 'a page" where
  "page pf p =
     (\<lambda>number. case validate_number pf p number of
        Inl e \<Rightarrow> Inl e
      | Inr n \<Rightarrow>
          (let bottom = nat (n - 1) * per_page p;
               top = bottom + per_page p;
               top = (if top \<ge> Paginator_count p then Paginator_count p else top)
           in Inr \<lparr>number = n, page_object_list = take (top - bottom) (drop bottom (object_list p))\<rparr>))"

definition get_page :: "platform \<Rightarrow> 'a paginator \<Rightarrow> page_arg \<Rightarrow> page_exn + 'a page" where
  "get_page pf p =
     (\<lambda>number. let number =
        (case validate_number pf p number of
           Inl PageNotAnInteger \<Rightarrow> 1
         | Inl EmptyPage \<Rightarrow> int (num_pages p)
         | Inr n \<Rightarrow> n)
      in page pf p (PageInt number))"

text \<open>
  \<^verbatim>\<open>MultipleObjectMixin.paginate_queryset\<close>, which a \<^verbatim>\<open>ListView\<close> with \<^verbatim>\<open>paginate_by\<close>
  runs: an absent or empty page parameter is page 1; a parameter that \<^verbatim>\<open>int\<close> refuses is
  the last page when it is \<open>last\<close> and raises \<open>Http404\<close> otherwise; an invalid page
  raises \<open>Http404\<close>.
\<close>

definition paginate_queryset ::
    "platform \<Rightarrow> 'a list \<Rightarrow> nat \<Rightarrow> string option \<Rightarrow> exn + 'a page" where
  "paginate_queryset pf queryset page_size page_param =
     (let paginator = Paginator queryset page_size;
          page_arg = (case page_param of
                        None \<Rightarrow> PageInt 1
                      | Some s \<Rightarrow> if s = [] then PageInt 1 else PageStr s)
      in case (case int_of_arg pf page_arg of
                 Some n \<Rightarrow> Inr n
               | None \<Rightarrow> if page_arg = PageStr ''last'' then Inr (int (num_pages paginator))
                          else Inl Http404) of
           Inl e \<Rightarrow> Inl e
         | Inr page_number \<Rightarrow>
             (case page pf paginator (PageInt page_number) of
                Inl e \<Rightarrow> Inl Http404
              | Inr pg \<Rightarrow> Inr pg))"

section \<open>Product views\<close>

text \<open>
  \<^verbatim>\<open>index\<close>: the page of products handed to the template. The paginator cuts the rows
  of the product query, in the order the engine gives them.
\<close>

definition index :: "platform \<Rightarrow> string option \<Rightarrow> db \<Rightarrow> page_exn + product page" where
  "index pf page_param d =
     (let products = products d;
          paginator = Paginator (product_rows pf products) 2;
          page_number = GET_get page_param
      in get_page pf paginator page_number)"

text \<open>
  \<^verbatim>\<open>ProductListTemplateView.get_context_data\<close>. The filter \<^verbatim>\<open>product__in=products\<close> is
  given the queryset of all products, not the page.
\<close>

record product_list_context =
  ctx_page_obj :: "product page"
  ctx_total_quantity :: "int option"
  ctx_average_price :: "rat option"

definition ProductListTemplateView_get_context_data ::
    "platform \<Rightarrow> string option \<Rightarrow> db \<Rightarrow> page_exn + product_list_context" where
  "ProductListTemplateView_get_context_data pf page_param d =
     (let products = products d;
          paginator = Paginator (product_rows pf products) 2;
          page_number = GET_get page_param
      in case get_page pf paginator page_number of
           Inl e \<Rightarrow> Inl e
         | Inr page_obj \<Rightarrow>
             (let total_quantity =
                    Sum_agg (map quantity
                      (filter (\<lambda>ord. list_ex (\<lambda>p. product_pk p = product_id ord) products) (orders d)));
                  average_price = Avg pf (map price products)
              in Inr \<lparr>ctx_page_obj = page_obj, ctx_total_quantity = total_quantity,
                      ctx_average_price = average_price\<rparr>))"

section \<open>The customers list\<close>

text \<open>
  \<^verbatim>\<open>CustomersListView\<close> answering a GET: the queryset is paginated by 2, then
  \<^verbatim>\<open>get_context_data\<close> adds the count of all customers and the revenue over all of them.
  The template's \<^verbatim>\<open>page_obj\<close> is the page's list of annotated customers.
\<close>

record customer_list_context =
  ctx_page_number :: int
  ctx_customers :: "(customer \<times> rat option) list"
  ctx_total_customers :: nat
  ctx_all_revenue :: "rat option"

definition CustomersListView_get_context_data ::
    "platform \<Rightarrow> string option \<Rightarrow> string option \<Rightarrow> db \<Rightarrow> exn + customer_list_context" where
  "CustomersListView_get_context_data pf search_query page_param d =
     (case paginate_queryset pf (CustomersListView_get_queryset pf search_query d) 2 page_param of
        Inl e \<Rightarrow> Inl e
      | Inr pg \<Rightarrow>
          (let total_customers = length (customers d);
               total_revenue = Sum_agg (concat (map (\<lambda>c. revenue_values d (customer_pk c)) (customers d)))
           in Inr \<lparr>ctx_page_number = number pg, ctx_customers = page_object_list pg,
                   ctx_total_customers = total_customers, ctx_all_revenue = total_revenue\<rparr>))"

section \<open>Lookups by id and slug\<close>

text \<open>What a view answers with: a rendered template with its messages, or a redirect.\<close>

datatype http = Rendered string "string list" | Redirected string

text \<open>
  \<^verbatim>\<open>SingleObjectMixin.get_object\<close>, which \<^verbatim>\<open>DeleteView\<close> keeps: the row of the primary key,
  and \<open>Http404\<close> in place of the model's \<open>DoesNotExist\<close>.
\<close>

definition SingleObjectMixin_get_object :: "('a \<Rightarrow> bool) \<Rightarrow> 'a list \<Rightarrow> exn + 'a" where
  "SingleObjectMixin_get_object P queryset =
     (case objects_get P queryset of
        Inl e \<Rightarrow> (if e = DoesNotExist then Inl Http404 else Inl e)
      | Inr obj \<Rightarrow> Inr obj)"

text \<open>
  \<^verbatim>\<open>ProductDetailTemplateView.get_context_data\<close> and \<^verbatim>\<open>ProductUpdateView\<close> look the product
  up with \<^verbatim>\<open>Product.objects.get(slug=slug)\<close>. A form (\<^verbatim>\<open>blog/forms.py\<close> is not part of
  the sources) is given by what its validation yields: \<open>None\<close> when it is not valid, the
  cleaned row otherwise.
\<close>

definition ProductDetailTemplateView_get_context_data :: "string \<Rightarrow> db \<Rightarrow> exn + product" where
  "ProductDetailTemplateView_get_context_data kw_slug d =
     objects_get (\<lambda>p. slug p = kw_slug) (products d)"

definition ProductUpdateView_get :: "string \<Rightarrow> db \<Rightarrow> exn + http" where
  "ProductUpdateView_get kw_slug d =
     (case objects_get (\<lambda>p. slug p = kw_slug) (products d) of
        Inl e \<Rightarrow> Inl e
      | Inr product \<Rightarrow> Inr (Rendered ''blog/product/update-product.html'' []))"

definition ProductUpdateView_post :: "string \<Rightarrow> product option \<Rightarrow> db \<Rightarrow> exn + http \<times> db" where
  "ProductUpdateView_post kw_slug form d =
     (case objects_get (\<lambda>p. slug p = kw_slug) (products d) of
        Inl e \<Rightarrow> Inl e
      | Inr product \<Rightarrow>
          (case form of
             Some cleaned \<Rightarrow>
               Inr (Redirected ''index'',
                    d\<lparr>products :=
                        map (\<lambda>row. if product_pk row = product_pk product
                                    then cleaned\<lparr>product_pk := product_pk product\<rparr> else row)
                          (products d)\<rparr>)
           | None \<Rightarrow> Inr (Rendered ''blog/product/update-product.html'' [], d)))"

text \<open>
  \<^verbatim>\<open>CustomerUpdateView.get_object\<close> replaces the mixin's lookup by
  \<^verbatim>\<open>Customer.objects.get(id=pk)\<close>; \<^verbatim>\<open>UpdateView\<close>'s \<^verbatim>\<open>get\<close> and \<^verbatim>\<open>post\<close> both start with it.
\<close>

definition CustomerUpdateView_get_object :: "int \<Rightarrow> db \<Rightarrow> exn + customer" where
  "CustomerUpdateView_get_object pk d = objects_get (\<lambda>c. customer_pk c = pk) (customers d)"

definition CustomerUpdateView_get :: "int \<Rightarrow> db \<Rightarrow> exn + http" where
  "CustomerUpdateView_get pk d =
     (case CustomerUpdateView_get_object pk d of
        Inl e \<Rightarrow> Inl e
      | Inr obj \<Rightarrow> Inr (Rendered ''blog/customer/update-customer.html'' []))"

definition CustomerUpdateView_post :: "int \<Rightarrow> customer option \<Rightarrow> db \<Rightarrow> exn + http \<times> db" where
  "CustomerUpdateView_post pk form d =
     (case CustomerUpdateView_get_object pk d of
        Inl e \<Rightarrow> Inl e
      | Inr obj \<Rightarrow>
          (case form of
             Some cleaned \<Rightarrow>
               Inr (Redirected ''customers_detail'',
                    d\<lparr>customers :=
                        map (\<lambda>row. if customer_pk row = customer_pk obj
                                    then cleaned\<lparr>customer_pk := customer_pk obj\<rparr> else row)
                          (customers d)\<rparr>)
           | None \<Rightarrow> Inr (Rendered ''blog/customer/update-customer.html'' [], d)))"

text \<open>
  \<^verbatim>\<open>CustomerDeleteView.get\<close> calls \<^verbatim>\<open>DeletionMixin.delete\<close>: the object of the mixin's
  lookup is deleted, and the answer is a redirect to the customers list.
\<close>

text \<open>
  Modelled from the spec: what the deletion does to the customer's orders is declared in
  \<^verbatim>\<open>blog/models.py\<close> (\<^verbatim>\<open>on_delete\<close>), which is not part of the sources; section 3 of the
  specification has the deletion cascade to them.
\<close>

definition CustomerDeleteView_get :: "int \<Rightarrow> db \<Rightarrow> exn + http \<times> db" where
  "CustomerDeleteView_get pk d =
     (case SingleObjectMixin_get_object (\<lambda>c. customer_pk c = pk) (customers d) of
        Inl e \<Rightarrow> Inl e
      | Inr obj \<Rightarrow>
          Inr (Redirected ''customers'',
               d\<lparr>customers := filter (\<lambda>c. customer_pk c \<noteq> customer_pk obj) (customers d),
                 orders := filter (\<lambda>ord. customer_id ord \<noteq> customer_pk obj) (orders d)\<rparr>))"

section \<open>Registration and email verification\<close>

text \<open>
  Modelled from the spec: the user model and its manager (\<^verbatim>\<open>blog/models.py\<close>) are not
  part of the sources. Section 3 of the specification gives a user an id, a unique email
  that is the login identity, a first name, a password hash and the three flags. A new
  row gets the next id, and a second user with an email that is taken is refused by the
  database (\<open>IntegrityError\<close>).
\<close>

record user =
  user_pk :: int
  first_name :: string
  user_email :: string
  password :: string
  is_active :: bool
  is_staff :: bool
  is_superuser :: bool

text \<open>
  The activation mail: the template \<^verbatim>\<open>blog/auth/email/activation.html\<close> rendered with the
  site's domain, the encoded user id and the token.
\<close>

record email_message =
  subject :: string
  to :: "string list"
  content_subtype :: string
  mail_domain :: string
  mail_uid :: string
  mail_token :: string

text \<open>
  The state the two views work on: the user table, the user id kept in the request's
  session, and the mails sent.
\<close>

record site =
  users :: "user list"
  session_user :: "int option"
  outbox :: "email_message list"

text \<open>
  What the views call and the sources do not define: the password hasher, the token
  generator \<^verbatim>\<open>account_activation_token\<close> (\<^verbatim>\<open>blog/views/tokens.py\<close>), the encoding of a user
  id \<^verbatim>\<open>urlsafe_base64_encode(force_bytes(id))\<close> and the decoding
  \<^verbatim>\<open>force_str(urlsafe_base64_decode(uidb64))\<close> (\<open>None\<close> when it raises \<open>ValueError\<close>), the
  current site's domain, and the mail transport (\<open>False\<close> when sending raises).
\<close>

record env =
  make_password :: "string \<Rightarrow> string"
  make_token :: "user \<Rightarrow> string"
  check_token :: "user \<Rightarrow> string \<Rightarrow> bool"
  urlsafe_base64_encode :: "int \<Rightarrow> string"
  urlsafe_base64_decode :: "string \<Rightarrow> string option"
  domain :: string
  deliver :: "email_message \<Rightarrow> bool"

text \<open>
  Modelled from the spec: the manager's \<^verbatim>\<open>create_user\<close> (\<^verbatim>\<open>blog/models.py\<close>) is not part of
  the sources. It saves a new row with the next id, the given first name and email and
  the hash of the password, or raises \<open>IntegrityError\<close> when the email is taken. The
  flags it sets are Django's defaults; the view overwrites all three.
\<close>

definition next_pk :: "user list \<Rightarrow> int" where
  "next_pk us = 1 + fold max (map user_pk us) 0"

definition create_user :: "env \<Rightarrow> string \<Rightarrow> string \<Rightarrow> string \<Rightarrow> user list \<Rightarrow> exn + user \<times> user list" where
  "create_user e fname mail pw us =
     (if list_ex (\<lambda>u. user_email u = mail) us then Inl IntegrityError
      else (let user = \<lparr>user_pk = next_pk us, first_name = fname, user_email = mail,
                        password = make_password e pw, is_active = True, is_staff = False,
                        is_superuser = False\<rparr>
            in Inr (user, us @ [user])))"

text \<open>\<^verbatim>\<open>user.save()\<close>: the row with the user's id is replaced, or the user is added.\<close>

definition save :: "user \<Rightarrow> user list \<Rightarrow> user list" where
  "save u us =
     (if list_ex (\<lambda>row. user_pk row = user_pk u) us
      then map (\<lambda>row. if user_pk row = user_pk u then u else row) us
      else us @ [u])"

text \<open>
  \<^verbatim>\<open>login(request, user, backend=...)\<close> stores the user's id in the session; it does not
  look at \<open>is_active\<close>.
\<close>

definition login :: "site \<Rightarrow> user \<Rightarrow> site" where
  "login st u = st\<lparr>session_user := Some (user_pk u)\<rparr>"

record cleaned_data =
  cd_first_name :: string
  cd_email :: string
  cd_password :: string

text \<open>
  \<^verbatim>\<open>RegisterView.post\<close>. The form is given by its validation: \<open>None\<close> when it is not
  valid, the cleaned data otherwise. The view's answer is paired with the state it
  leaves, also when it raises.
\<close>

definition RegisterView_post :: "env \<Rightarrow> cleaned_data option \<Rightarrow> site \<Rightarrow> (exn + http) \<times> site" where
  "RegisterView_post e form st =
     (case form of
        None \<Rightarrow> (Inr (Rendered ''blog/auth/register.html'' []), st)
      | Some cd \<Rightarrow>
          (case create_user e (cd_first_name cd) (cd_email cd) (cd_password cd) (users st) of
             Inl ex \<Rightarrow> (Inl ex, st)
           | Inr (created, us) \<Rightarrow>
               (let user = created\<lparr>is_active := False, is_staff := True, is_superuser := True\<rparr>;
                    st = st\<lparr>users := save user us\<rparr>;
                    email_message =
                      \<lparr>subject = ''Verify your email'', to = [cd_email cd],
                       content_subtype = ''html'', mail_domain = domain e,
                       mail_uid = urlsafe_base64_encode e (user_pk user),
                       mail_token = make_token e user\<rparr>
                in if deliver e email_message
                   then (Inr (Redirected ''verify_email_done''),
                         login (st\<lparr>outbox := outbox st @ [email_message]\<rparr>) user)
                   else (Inl SMTPException, st))))"

text \<open>
  \<^verbatim>\<open>VerifyEmailConfirmView.get\<close>. \<open>User_objects_get\<close> is the body of its \<^verbatim>\<open>try\<close>: the uid is
  decoded, and the lookup \<^verbatim>\<open>User.objects.get(pk=uid)\<close> converts the decoded string with
  \<^verbatim>\<open>int\<close> (\<open>ValueError\<close> when \<^verbatim>\<open>int\<close> refuses it) and raises \<open>DoesNotExist\<close> when no user has
  the id. The view
  catches \<open>TypeError\<close>, \<open>ValueError\<close>, \<open>OverflowError\<close> and \<open>DoesNotExist\<close>.
\<close>

definition User_objects_get :: "platform \<Rightarrow> env \<Rightarrow> string \<Rightarrow> user list \<Rightarrow> exn + user" where
  "User_objects_get pf e uidb64 us =
     (case urlsafe_base64_decode e uidb64 of
        None \<Rightarrow> Inl ValueError
      | Some uid \<Rightarrow>
          (case py_int pf uid of
             None \<Rightarrow> Inl ValueError
           | Some pk \<Rightarrow>
               (case find (\<lambda>u. user_pk u = pk) us of
                  None \<Rightarrow> Inl DoesNotExist
                | Some u \<Rightarrow> Inr u)))"

definition VerifyEmailConfirmView_get ::
    "platform \<Rightarrow> env \<Rightarrow> string \<Rightarrow> string \<Rightarrow> site \<Rightarrow> (exn + http) \<times> site" where
  "VerifyEmailConfirmView_get pf e uidb64 token st =
     (case (case User_objects_get pf e uidb64 (users st) of
              Inr u \<Rightarrow> Inr (Some u)
            | Inl ex \<Rightarrow>
                if ex = TypeError \<or> ex = ValueError \<or> ex = OverflowError \<or> ex = DoesNotExist
                then Inr None else Inl ex) of
        Inl ex \<Rightarrow> (Inl ex, st)
      | Inr user \<Rightarrow>
          (case user of
             Some u \<Rightarrow>
               if check_token e u token
               then (Inr (Redirected ''verify_email_complete''),
                     st\<lparr>users := save (u\<lparr>is_active := True\<rparr>) (users st)\<rparr>)
               else (Inr (Rendered ''blog/auth/email/verify-email-confirm.html''
                            [''The link is invalid.'']), st)
           | None \<Rightarrow>
               (Inr (Rendered ''blog/auth/email/verify-email-confirm.html''
                       [''The link is invalid.'']), st)))"

section \<open>The specification's notions\<close>

subsection \<open>Revenue\<close>

text \<open>
  A customer's orders, an order's product price, and the sum over the customer's orders
  of quantity times product price: absent (\<open>None\<close>) for a customer with no order.
\<close>

definition orders_of :: "db \<Rightarrow> int \<Rightarrow> order list" where
  "orders_of d cid = filter (\<lambda>ord. customer_id ord = cid) (orders d)"

definition price_of :: "db \<Rightarrow> order \<Rightarrow> rat" where
  "price_of d ord =
     (case find (\<lambda>p. product_pk p = product_id ord) (products d) of
        Some p \<Rightarrow> price p
      | None \<Rightarrow> 0)"

definition spec_total_revenue :: "db \<Rightarrow> int \<Rightarrow> rat option" where
  "spec_total_revenue d cid =
     (if orders_of d cid = [] then None
      else Some (sum_list (map (\<lambda>ord. of_int (quantity ord) * price_of d ord) (orders_of d cid))))"

text \<open>
  The database's own constraints: product ids are a primary key, and the product of every
  order exists.
\<close>

definition foreign_keys_ok :: "db \<Rightarrow> bool" where
  "foreign_keys_ok d =
     (distinct (map product_pk (products d)) \<and>
      list_all (\<lambda>ord. list_ex (\<lambda>p. product_pk p = product_id ord) (products d)) (orders d))"

subsection \<open>Search and pages\<close>


text \<open>Page \<open>n\<close> (from 1) of a list cut into pages of two.\<close>

definition page_of_two :: "'a list \<Rightarrow> int \<Rightarrow> 'a page" where
  "page_of_two xs n = \<lparr>number = n, page_object_list = take 2 (drop (2 * nat (n - 1)) xs)\<rparr>"

text \<open>
  The sum of the ordered quantities over the products that are visible on a page (the
  reading of \<open>total_quantity\<close> that the specification gives).
\<close>

definition page_total_quantity :: "db \<Rightarrow> product list \<Rightarrow> int option" where
  "page_total_quantity d visible =
     Sum_agg (map quantity
       (filter (\<lambda>ord. list_ex (\<lambda>p. product_pk p = product_id ord) visible) (orders d)))"

text \<open>
  The page a listing shows for a page parameter, among \<open>np\<close> pages, where \<open>parse\<close> is
  Python's \<^verbatim>\<open>int\<close> on strings. The product index shows a page for every parameter: page 1
  when the parameter is absent or \<^verbatim>\<open>int\<close> refuses it, the page asked for when it exists,
  and the last page for every other integer. The customers list shows page 1 when the
  parameter is absent or empty, the page asked for when it exists, the last page for
  \<open>last\<close>, and no page (\<open>None\<close>) otherwise.
\<close>

definition index_page_number :: "(string \<Rightarrow> int option) \<Rightarrow> nat \<Rightarrow> string option \<Rightarrow> int" where
  "index_page_number parse np page_param =
     (case page_param of
        None \<Rightarrow> 1
      | Some s \<Rightarrow>
          (case parse s of
             None \<Rightarrow> 1
           | Some n \<Rightarrow> if 1 \<le> n \<and> n \<le> int np then n else int np))"

definition list_page_number ::
    "(string \<Rightarrow> int option) \<Rightarrow> nat \<Rightarrow> string option \<Rightarrow> int option" where
  "list_page_number parse np page_param =
     (case page_param of
        None \<Rightarrow> Some 1
      | Some s \<Rightarrow>
          if s = [] then Some 1
          else (case parse s of
                  Some n \<Rightarrow> if 1 \<le> n \<and> n \<le> int np then Some n else None
                | None \<Rightarrow> if s = ''last'' then Some (int np) else None))"

subsection \<open>Confirmation links\<close>

text \<open>
  The user that a confirmation link stands for, that is,
  the user whose id the link decodes to, who exists, and for whom the token checks out.
\<close>

definition confirmed_user ::
    "(string \<Rightarrow> int option) \<Rightarrow> env \<Rightarrow> string \<Rightarrow> string \<Rightarrow> site \<Rightarrow> user option" where
  "confirmed_user parse e uidb64 token st =
     (case urlsafe_base64_decode e uidb64 of
        None \<Rightarrow> None
      | Some uid \<Rightarrow>
          (case parse uid of
             None \<Rightarrow> None
           | Some pk \<Rightarrow>
               (case find (\<lambda>u. user_pk u = pk) (users st) of
                  None \<Rightarrow> None
                | Some u \<Rightarrow> if check_token e u token then Some u else None)))"

section \<open>Example data\<close>

text \<open>
  Three products and three customers. Carol has the two orders of the specification's
  scenario (2 at 10.00 and 1 at 5.00), Dmitri has none, Erin has one.
\<close>

definition shop :: db where
  "shop =
     \<lparr>products =
        [\<lparr>product_pk = 1, slug = ''pen'', price = 10\<rparr>,
         \<lparr>product_pk = 2, slug = ''ink'', price = 5\<rparr>,
         \<lparr>product_pk = 3, slug = ''pad'', price = 7 / 2\<rparr>],
      customers =
        [\<lparr>customer_pk = 1, name = ''Carol'', email = ''carol@shop.example'', phone = ''555-0101'',
          billing_address = ''1 High St''\<rparr>,
         \<lparr>customer_pk = 2, name = ''Dmitri'', email = ''dmitri@shop.example'', phone = ''555-0102'',
          billing_address = ''2 Low St''\<rparr>,
         \<lparr>customer_pk = 3, name = ''Erin'', email = ''ERIN@shop.example'', phone = ''555-0103'',
          billing_address = ''3 Mid St''\<rparr>],
      orders =
        [\<lparr>order_pk = 1, customer_id = 1, product_id = 1, quantity = 2\<rparr>,
         \<lparr>order_pk = 2, customer_id = 1, product_id = 2, quantity = 1\<rparr>,
         \<lparr>order_pk = 3, customer_id = 3, product_id = 3, quantity = 4\<rparr>]\<rparr>"

text \<open>A database with a single customer and nothing else.\<close>

definition kiosk :: db where
  "kiosk =
     \<lparr>products = [],
      customers =
        [\<lparr>customer_pk = 1, name = ''Carol'', email = ''carol@shop.example'', phone = ''555-0101'',
          billing_address = ''1 High St''\<rparr>],
      orders = []\<rparr>"

text \<open>
  An instance of the platform for the examples.
  \<^item> \<open>ascii_int\<close> reads what \<^verbatim>\<open>int\<close> of CPython 3.11 reads in a string of ASCII characters:
    blanks (the characters 9 to 13 and 32) around an optional sign and decimal digits,
    single underscores allowed between two digits, at most 4300 digits. The examples
    give it such strings only.
  \<^item> \<open>ascii_lower\<close> folds the letters A to Z, as SQLite's \<^verbatim>\<open>LIKE\<close> does.
  \<^item> The rows come in the order of the table.
  \<^item> \<open>mean\<close> is the exact mean; the examples take it where it is a short decimal.
\<close>

definition ascii_isspace :: "char \<Rightarrow> bool" where
  "ascii_isspace c = (let n = (of_char c :: nat) in (9 \<le> n \<and> n \<le> 13) \<or> n = 32)"

definition ascii_strip :: "string \<Rightarrow> string" where
  "ascii_strip s = rev (dropWhile ascii_isspace (rev (dropWhile ascii_isspace s)))"

definition ascii_digit :: "char \<Rightarrow> nat option" where
  "ascii_digit c =
     (let n = (of_char c :: nat) in if 48 \<le> n \<and> n \<le> 57 then Some (n - 48) else None)"

fun ascii_digits :: "bool \<Rightarrow> nat \<Rightarrow> string \<Rightarrow> nat option" where
  "ascii_digits after_digit acc [] = (if after_digit then Some acc else None)"
| "ascii_digits after_digit acc (c # cs) =
     (if c = CHR ''_'' then (if after_digit then ascii_digits False acc cs else None)
      else case ascii_digit c of
             None \<Rightarrow> None
           | Some v \<Rightarrow> ascii_digits True (acc * 10 + v) cs)"

definition ascii_int :: "string \<Rightarrow> int option" where
  "ascii_int s =
     (if length (filter (\<lambda>c. ascii_digit c \<noteq> None) s) > 4300 then None
      else case ascii_strip s of
             [] \<Rightarrow> None
           | c # cs \<Rightarrow>
               if c = CHR ''-'' then map_option (\<lambda>n. - int n) (ascii_digits False 0 cs)
               else if c = CHR ''+'' then map_option int (ascii_digits False 0 cs)
               else map_option int (ascii_digits False 0 (c # cs)))"

definition ascii_lower_char :: "char \<Rightarrow> char" where
  "ascii_lower_char c =
     (case map_of (zip ''ABCDEFGHIJKLMNOPQRSTUVWXYZ'' ''abcdefghijklmnopqrstuvwxyz'') c of
        Some l \<Rightarrow> l
      | None \<Rightarrow> c)"

definition ascii_lower :: "string \<Rightarrow> string" where
  "ascii_lower s = map ascii_lower_char s"

definition mean :: "rat list \<Rightarrow> rat option" where
  "mean vs = (if vs = [] then None else Some (sum_list vs / of_nat (length vs)))"

definition demo_platform :: platform where
  "demo_platform =
     \<lparr>py_int = ascii_int, casefold = ascii_lower, customer_rows = (\<lambda>q rows. rows),
      product_rows = (\<lambda>rows. rows), Avg = mean\<rparr>"

text \<open>
  A database with three products at 10, 5 and 3 (their mean is 6), one customer and an
  order for each product.
\<close>

definition bazaar :: db where
  "bazaar =
     \<lparr>products =
        [\<lparr>product_pk = 1, slug = ''pen'', price = 10\<rparr>,
         \<lparr>product_pk = 2, slug = ''ink'', price = 5\<rparr>,
         \<lparr>product_pk = 3, slug = ''nib'', price = 3\<rparr>],
      customers =
        [\<lparr>customer_pk = 1, name = ''Carol'', email = ''carol@shop.example'', phone = ''555-0101'',
          billing_address = ''1 High St''\<rparr>],
      orders =
        [\<lparr>order_pk = 1, customer_id = 1, product_id = 1, quantity = 2\<rparr>,
         \<lparr>order_pk = 2, customer_id = 1, product_id = 2, quantity = 1\<rparr>,
         \<lparr>order_pk = 3, customer_id = 1, product_id = 3, quantity = 4\<rparr>]\<rparr>"

text \<open>
  A library for the examples: the token of a user is its email after \<open>tok-\<close>, the ids 1
  and 2 are encoded as base64 does, and every mail is delivered. One user, verified, is
  registered already.
\<close>

definition demo_env :: env where
  "demo_env =
     \<lparr>make_password = (\<lambda>pw. ''hash:'' @ pw),
      make_token = (\<lambda>u. ''tok-'' @ user_email u),
      check_token = (\<lambda>u t. t = ''tok-'' @ user_email u),
      urlsafe_base64_encode = (\<lambda>n. if n = 1 then ''MQ'' else if n = 2 then ''Mg'' else ''Mw''),
      urlsafe_base64_decode =
        (\<lambda>s. if s = ''MQ'' then Some ''1'' else if s = ''Mg'' then Some ''2''
              else if s = ''OQ'' then Some ''9'' else if s = ''eA'' then Some ''x'' else None),
      domain = ''shop.example'',
      deliver = (\<lambda>m. True)\<rparr>"

definition demo_site :: site where
  "demo_site =
     \<lparr>users =
        [\<lparr>user_pk = 1, first_name = ''Ada'', user_email = ''ada@shop.example'',
          password = ''hash:a'', is_active = True, is_staff = False, is_superuser = False\<rparr>],
      session_user = None,
      outbox = []\<rparr>"

definition demo_form :: cleaned_data where
  "demo_form = \<lparr>cd_first_name = ''Bo'', cd_email = ''bo@shop.example'', cd_password = ''b''\<rparr>"

text \<open>The state after the registration of the example.\<close>

definition pending_site :: site where
  "pending_site = snd (RegisterView_post demo_env (Some demo_form) demo_site)"

section \<open>Properties\<close>

subsection \<open>Revenue per customer\<close>

text \<open>
  With the exact sums of the model, the annotation is the formula of the specification:
  in every database whose foreign keys hold, the sum that is annotated to a customer is
  \<open>spec_total_revenue\<close>, and so is that of the detail view.
\<close>

lemma filter_unique_key:
  "distinct (map f xs) \<Longrightarrow> list_ex (\<lambda>p. f p = k) xs \<Longrightarrow>
   \<exists>x. find (\<lambda>p. f p = k) xs = Some x \<and> filter (\<lambda>p. f p = k) xs = [x]"
proof (induction xs)
  case Nil
  then show ?case by simp
next
  case (Cons a xs)
  show ?case
  proof (cases "f a = k")
    case True
    with Cons.prems have "\<forall>x \<in> set xs. f x \<noteq> k" by (force simp: image_iff)
    then have "filter (\<lambda>p. f p = k) xs = []" by (simp add: filter_empty_conv)
    with True show ?thesis by simp
  next
    case False
    with Cons show ?thesis by simp
  qed
qed

lemma order_values_single:
  assumes "foreign_keys_ok d" and "ord \<in> set (orders d)"
  shows "order_values d ord = [of_int (quantity ord) * price_of d ord]"
proof -
  from assms have "distinct (map product_pk (products d))"
    and "list_ex (\<lambda>p. product_pk p = product_id ord) (products d)"
    by (auto simp: foreign_keys_ok_def list_all_iff)
  from filter_unique_key [OF this] show ?thesis
    by (auto simp: order_values_def price_of_def)
qed

lemma revenue_values_spec:
  assumes "foreign_keys_ok d"
  shows "revenue_values d cid = map (\<lambda>ord. of_int (quantity ord) * price_of d ord) (orders_of d cid)"
proof -
  have "set os \<subseteq> set (orders d) \<Longrightarrow>
      concat (map (order_values d) os) = map (\<lambda>ord. of_int (quantity ord) * price_of d ord) os"
    for os
    by (induction os) (simp_all add: order_values_single [OF assms])
  then show ?thesis by (simp add: revenue_values_def orders_of_def)
qed

lemma Sum_revenue_spec:
  "foreign_keys_ok d \<Longrightarrow> Sum_agg (revenue_values d cid) = spec_total_revenue d cid"
  by (simp add: revenue_values_spec Sum_agg_def spec_total_revenue_def)

lemma annotate_spec:
  "foreign_keys_ok d \<Longrightarrow>
   annotate_total_revenue d qs = map (\<lambda>c. (c, spec_total_revenue d (customer_pk c))) qs"
  by (simp add: annotate_total_revenue_def Sum_revenue_spec)

lemma find_Some_key: "find (\<lambda>c. f c = k) xs = Some x \<Longrightarrow> f x = k"
  by (induction xs) (auto split: if_splits)

lemma detail_spec:
  assumes "foreign_keys_ok d" and "CustomerDetailView_get_context_data pk d = Inr ctx"
  shows "customer_pk (ctx_customer ctx) = pk \<and> ctx_total_revenue ctx = spec_total_revenue d pk"
proof -
  from assms(2) obtain c where c: "find (\<lambda>c. customer_pk c = pk) (customers d) = Some c"
    and ctx: "ctx = \<lparr>ctx_customer = c,
        ctx_total_revenue = Sum_agg (revenue_values d (customer_pk c))\<rparr>"
    by (auto simp: CustomerDetailView_get_context_data_def CustomerDetailView_get_object_def
        get_object_or_404_def objects_get_def revenue_values_def
        split: option.splits sum.splits if_splits)
  from c have "customer_pk c = pk" by (rule find_Some_key)
  with ctx assms(1) show ?thesis by (simp add: Sum_revenue_spec)
qed

lemma shop_keys: "foreign_keys_ok shop"
  by (simp add: foreign_keys_ok_def shop_def)

text \<open>
  Claim C1. At the example, the \<open>total_revenue\<close> of Carol, whose orders are 2 at 10 and 1
  at 5, is 25 in the list view's queryset, in the detail view's context and in the rows
  of the CSV and XLSX serializers; that of Dmitri, who has no order, is absent (\<open>None\<close>)
  and not zero; and once the price of the first product is 12, Carol's is 29. The JSON
  serializer builds the same values, and emits them for a database without orders (the
  second example, where the revenue is null); at the first example it raises
  \<open>TypeError\<close> on the decimal 25 and emits nothing.
\<close>

theorem revenue_in_views_and_exports:
  "set (map (\<lambda>(c, r). (customer_pk c, r)) (CustomersListView_get_queryset demo_platform None shop))
     = {(1, Some 25), (2, None), (3, Some 14)} \<and>
   map_sum id ctx_total_revenue (CustomerDetailView_get_context_data 1 shop) = Inr (Some 25) \<and>
   map_sum id ctx_total_revenue (CustomerDetailView_get_context_data 2 shop) = Inr None \<and>
   map_sum id ctx_total_revenue
     (CustomerDetailView_get_context_data 1
        (shop\<lparr>products := (hd (products shop))\<lparr>price := 12\<rparr> # tl (products shop)\<rparr>))
     = Inr (Some 29) \<and>
   (case content (export_csv shop) of
      Csv rows \<Rightarrow>
        set (map (\<lambda>row. (hd row, last row)) (tl rows))
          = {(PInt 1, PDecimal 25), (PInt 2, PNone), (PInt 3, PDecimal 14)}
    | Text t \<Rightarrow> False
    | Json data \<Rightarrow> False
    | Xlsx title rows \<Rightarrow> False) \<and>
   (case content (export_xlsx shop) of
      Xlsx title rows \<Rightarrow>
        set (map (\<lambda>row. (hd row, last row)) (tl rows))
          = {(PInt 1, PDecimal 25), (PInt 2, PNone), (PInt 3, PDecimal 14)}
    | Text t \<Rightarrow> False
    | Json data \<Rightarrow> False
    | Csv rows \<Rightarrow> False) \<and>
   set (map (\<lambda>obj. (snd (hd obj), last obj)) (export_json_data shop))
     = {(PInt 1, (''total_revenue'', PDecimal 25)), (PInt 2, (''total_revenue'', PNone)),
        (PInt 3, (''total_revenue'', PDecimal 14))} \<and>
   export_json shop = Inl TypeError \<and>
   map_sum id content (export_json kiosk) =
     Inr (Json [[(''id'', PInt 1), (''name'', PStr ''Carol''), (''email'', PStr ''carol@shop.example''),
                 (''phone'', PStr ''555-0101''), (''billing_address'', PStr ''1 High St''),
                 (''total_revenue'', PNone)]])"
  by (simp add: CustomersListView_get_queryset_def annotate_total_revenue_def revenue_values_def
      order_values_def Sum_agg_def CustomerDetailView_get_context_data_def
      CustomerDetailView_get_object_def get_object_or_404_def objects_get_def
      export_csv_def export_xlsx_def export_json_def export_json_data_def json_dumps_def
      py_of_revenue_def shop_def kiosk_def demo_platform_def insert_commute)

subsection \<open>Export\<close>

lemma csv_xlsx_same_rows:
  "\<exists>rows. content (export_csv d) = Csv rows \<and> content (export_xlsx d) = Xlsx ''Customers'' rows \<and>
     hd rows = [PStr ''id'', PStr ''name'', PStr ''email'', PStr ''phone'',
                PStr ''billing_address'', PStr ''total_revenue''] \<and>
     length rows = Suc (length (customers d)) \<and>
     map hd (tl rows) = map (\<lambda>c. PInt (customer_pk c)) (customers d)"
  by (simp add: export_csv_def export_xlsx_def annotate_total_revenue_def comp_def)

lemma export_json_agrees_when_dumped:
  assumes "export_json d = Inr r"
  shows "\<exists>data rows. content r = Json data \<and> content (export_csv d) = Csv rows \<and>
           map (map snd) data = tl rows \<and>
           list_all (\<lambda>obj. map fst obj =
              [''id'', ''name'', ''email'', ''phone'', ''billing_address'', ''total_revenue'']) data"
  using assms
  by (auto simp: export_json_def json_dumps_def export_json_data_def export_csv_def
      annotate_total_revenue_def comp_def list_all_iff split: if_splits)

lemma export_json_raises_iff:
  "export_json d = Inl TypeError \<longleftrightarrow>
   (\<exists>c \<in> set (customers d). Sum_agg (revenue_values d (customer_pk c)) \<noteq> None)"
  by (auto simp: export_json_def json_dumps_def export_json_data_def annotate_total_revenue_def
      list_all_iff py_of_revenue_def split: option.splits)

text \<open>
  Claim C2. The three serializers are to emit the same customers, with the same six
  fields, in the same order. The CSV and XLSX serializers do (\<open>csv_xlsx_same_rows\<close>),
  and so does the JSON serializer whenever it returns
  (\<open>export_json_agrees_when_dumped\<close>); but it returns only when no customer has an
  order (\<open>export_json_raises_iff\<close>). At the example database the JSON export raises
  \<open>TypeError\<close> on Carol's revenue, the decimal 25, where the CSV and XLSX exports emit
  all three rows.
\<close>

theorem export_json_fails_where_csv_and_xlsx_emit:
  "export_json shop = Inl TypeError \<and>
   ExportDataView_get (Some ''json'') shop = Inl TypeError \<and>
   content (export_csv shop) =
     Csv [[PStr ''id'', PStr ''name'', PStr ''email'', PStr ''phone'', PStr ''billing_address'',
           PStr ''total_revenue''],
          [PInt 1, PStr ''Carol'', PStr ''carol@shop.example'', PStr ''555-0101'',
           PStr ''1 High St'', PDecimal 25],
          [PInt 2, PStr ''Dmitri'', PStr ''dmitri@shop.example'', PStr ''555-0102'',
           PStr ''2 Low St'', PNone],
          [PInt 3, PStr ''Erin'', PStr ''ERIN@shop.example'', PStr ''555-0103'',
           PStr ''3 Mid St'', PDecimal 14]] \<and>
   content (export_xlsx shop) =
     Xlsx ''Customers''
         [[PStr ''id'', PStr ''name'', PStr ''email'', PStr ''phone'', PStr ''billing_address'',
           PStr ''total_revenue''],
          [PInt 1, PStr ''Carol'', PStr ''carol@shop.example'', PStr ''555-0101'',
           PStr ''1 High St'', PDecimal 25],
          [PInt 2, PStr ''Dmitri'', PStr ''dmitri@shop.example'', PStr ''555-0102'',
           PStr ''2 Low St'', PNone],
          [PInt 3, PStr ''Erin'', PStr ''ERIN@shop.example'', PStr ''555-0103'',
           PStr ''3 Mid St'', PDecimal 14]]"
  by (simp add: ExportDataView_get_def export_json_def json_dumps_def export_json_data_def
      export_csv_def export_xlsx_def annotate_total_revenue_def revenue_values_def
      order_values_def Sum_agg_def py_of_revenue_def shop_def)

text \<open>
  Claim C3. The export view calls the CSV serializer for the format \<open>csv\<close> and when the
  parameter is absent, the JSON serializer for \<open>json\<close>, the XLSX serializer for
  \<open>xlsx\<close>; for every other value it answers with status 404 and the body
  \<open>Bad requests\<close>.
\<close>

theorem export_dispatch:
  "ExportDataView_get None d = Inr (export_csv d) \<and>
   ExportDataView_get (Some ''csv'') d = Inr (export_csv d) \<and>
   ExportDataView_get (Some ''json'') d = export_json d \<and>
   ExportDataView_get (Some ''xlsx'') d = Inr (export_xlsx d) \<and>
   (f \<noteq> ''csv'' \<and> f \<noteq> ''json'' \<and> f \<noteq> ''xlsx'' \<longrightarrow>
      (\<exists>r. ExportDataView_get (Some f) d = Inr r \<and> status r = 404 \<and>
           content r = Text ''Bad requests''))"
  by (simp add: ExportDataView_get_def)

text \<open>
  The theorem at the formats \<open>xml\<close>, the empty string and \<open>CSV\<close> (the comparison is
  exact, so the upper-case name is unknown too).
\<close>

theorem export_dispatch_witness:
  "ExportDataView_get None shop = Inr (export_csv shop) \<and>
   ExportDataView_get (Some ''xlsx'') shop = Inr (export_xlsx shop) \<and>
   map_sum id status (ExportDataView_get (Some ''xml'') shop) = Inr 404 \<and>
   map_sum id content (ExportDataView_get (Some ''xml'') shop) = Inr (Text ''Bad requests'') \<and>
   map_sum id status (ExportDataView_get (Some []) shop) = Inr 404 \<and>
   map_sum id status (ExportDataView_get (Some ''CSV'') shop) = Inr 404"
  using export_dispatch [of shop "''xml''"] export_dispatch [of shop "[]"] export_dispatch [of shop "''CSV''"]
  by (simp add: ExportDataView_get_def)

subsection \<open>Pages\<close>

lemma num_pages_two: "num_pages (Paginator xs 2) = (max 1 (length xs) + 1) div 2"
  by (simp add: num_pages_def Paginator_def Paginator_count_def Let_def)

lemma num_pages_two_pos: "1 \<le> num_pages (Paginator xs 2)"
  unfolding num_pages_two max_def by (simp; presburger)

lemma page_two_valid:
  assumes "1 \<le> n" and "n \<le> int (num_pages (Paginator xs 2))"
  shows "page pf (Paginator xs 2) (PageInt n) = Inr (page_of_two xs n)"
proof -
  let ?b = "nat (n - 1) * 2"
  have "take (length xs - ?b) (drop ?b xs) = take 2 (drop ?b xs)" if "?b + 2 \<ge> length xs"
    using that by simp
  then show ?thesis
    using assms
    by (simp add: page_def validate_number_def page_of_two_def Paginator_def Paginator_count_def
        Let_def mult.commute)
qed

lemma page_two_invalid:
  assumes "n < 1 \<or> int (num_pages (Paginator xs 2)) < n"
  shows "page pf (Paginator xs 2) (PageInt n) = Inl EmptyPage"
  using assms by (auto simp: page_def validate_number_def)

lemma index_page_number_valid:
  "1 \<le> np \<Longrightarrow> 1 \<le> index_page_number parse np p \<and> index_page_number parse np p \<le> int np"
  by (auto simp: index_page_number_def split: option.splits)

lemma get_page_two:
  "get_page pf (Paginator xs 2) (GET_get p) =
     Inr (page_of_two xs (index_page_number (py_int pf) (num_pages (Paginator xs 2)) p))"
proof -
  let ?np = "num_pages (Paginator xs 2)"
  have v: "1 \<le> index_page_number (py_int pf) ?np p" "index_page_number (py_int pf) ?np p \<le> int ?np"
    using index_page_number_valid [OF num_pages_two_pos] by blast+
  have "(case validate_number pf (Paginator xs 2) (GET_get p) of
           Inl PageNotAnInteger \<Rightarrow> 1
         | Inl EmptyPage \<Rightarrow> int ?np
         | Inr n \<Rightarrow> n) = index_page_number (py_int pf) ?np p"
    by (cases p) (auto simp: validate_number_def index_page_number_def split: option.splits)
  with page_two_valid [OF v] show ?thesis
    by (simp add: get_page_def Let_def)
qed

lemma paginate_queryset_two:
  "paginate_queryset pf qs 2 p =
     (case list_page_number (py_int pf) (num_pages (Paginator qs 2)) p of
        None \<Rightarrow> Inl Http404
      | Some n \<Rightarrow> Inr (page_of_two qs n))"
proof -
  let ?np = "num_pages (Paginator qs 2)"
  have one: "page pf (Paginator qs 2) (PageInt 1) = Inr (page_of_two qs 1)"
    using page_two_valid [of 1 qs] num_pages_two_pos [of qs] by simp
  have last: "page pf (Paginator qs 2) (PageInt (int ?np)) = Inr (page_of_two qs (int ?np))"
    using page_two_valid [of "int ?np" qs] num_pages_two_pos [of qs] by simp
  show ?thesis
  proof (cases p)
    case None
    with one show ?thesis by (simp add: paginate_queryset_def list_page_number_def)
  next
    case (Some s)
    show ?thesis
    proof (cases "s = []")
      case True
      with Some one show ?thesis by (simp add: paginate_queryset_def list_page_number_def)
    next
      case False
      note nonempty = this
      show ?thesis
      proof (cases "py_int pf s")
        case None
        with Some nonempty last show ?thesis
          by (simp add: paginate_queryset_def list_page_number_def)
      next
        case (Some n)
        note n = this
        show ?thesis
        proof (cases "1 \<le> n \<and> n \<le> int ?np")
          case True
          with page_two_valid [of n qs] n \<open>p = Some s\<close> nonempty show ?thesis
            by (simp add: paginate_queryset_def list_page_number_def)
        next
          case False
          then have "n < 1 \<or> int ?np < n" by auto
          from page_two_invalid [OF this] n \<open>p = Some s\<close> nonempty False
          show ?thesis
            by (simp add: paginate_queryset_def list_page_number_def)
        qed
      qed
    qed
  qed
qed

subsection \<open>Search\<close>










subsection \<open>Product list and page parameters\<close>

lemma orders_all_have_products:
  assumes "foreign_keys_ok d"
  shows "filter (\<lambda>ord. list_ex (\<lambda>p. product_pk p = product_id ord) (products d)) (orders d) = orders d"
  using assms by (simp add: foreign_keys_ok_def list_all_iff)

text \<open>
  Claim C5. In the product list view neither aggregate depends on the page: in a
  database whose foreign keys hold, \<open>total_quantity\<close> is the sum of the quantities of
  all orders (the filter is given every product, not the visible two), and
  \<open>average_price\<close> is the engine's \<^verbatim>\<open>AVG\<close> of the price over all products.
\<close>

theorem product_totals_are_global:
  assumes "foreign_keys_ok d"
  shows "\<exists>ctx. ProductListTemplateView_get_context_data pf page_param d = Inr ctx \<and>
           ctx_page_obj ctx =
             page_of_two (product_rows pf (products d))
               (index_page_number (py_int pf)
                  (num_pages (Paginator (product_rows pf (products d)) 2)) page_param) \<and>
           ctx_total_quantity ctx = Sum_agg (map quantity (orders d)) \<and>
           ctx_average_price ctx = Avg pf (map price (products d))"
  using orders_all_have_products [OF assms]
  by (simp add: ProductListTemplateView_get_context_data_def get_page_two Let_def)

lemma bazaar_keys: "foreign_keys_ok bazaar"
  by (simp add: foreign_keys_ok_def bazaar_def)

text \<open>
  At the example with the prices 10, 5 and 3, pages 2 and 1 show different products and
  the same aggregates: 7 items ordered, and the mean price 6.
\<close>

theorem product_totals_are_global_witness:
  "foreign_keys_ok bazaar \<and>
   map_sum id (\<lambda>ctx. (number (ctx_page_obj ctx), length (page_object_list (ctx_page_obj ctx)),
        ctx_total_quantity ctx, ctx_average_price ctx))
     (ProductListTemplateView_get_context_data demo_platform (Some ''2'') bazaar)
     = Inr (2, 1, Some 7, Some 6) \<and>
   map_sum id (\<lambda>ctx. (number (ctx_page_obj ctx), length (page_object_list (ctx_page_obj ctx)),
        ctx_total_quantity ctx, ctx_average_price ctx))
     (ProductListTemplateView_get_context_data demo_platform None bazaar)
     = Inr (1, 2, Some 7, Some 6)"
  using product_totals_are_global [OF bazaar_keys, of demo_platform "Some ''2''"]
    product_totals_are_global [OF bazaar_keys, of demo_platform None] bazaar_keys
  by (simp add: ProductListTemplateView_get_context_data_def get_page_def page_def
      validate_number_def Paginator_def num_pages_def Paginator_count_def ascii_int_def
      ascii_strip_def ascii_isspace_def ascii_digit_def Sum_agg_def mean_def bazaar_def Let_def
      page_of_two_def index_page_number_def demo_platform_def)

text \<open>
  \<open>total_quantity\<close> is not the sum over the visible page: page 1 of the example shows
  products 1 and 2, whose orders sum to 3, and the view reports 7.
\<close>

theorem total_quantity_not_page_scoped:
  "map_sum id (\<lambda>ctx. (map product_pk (page_object_list (ctx_page_obj ctx)), ctx_total_quantity ctx,
        page_total_quantity shop (page_object_list (ctx_page_obj ctx))))
     (ProductListTemplateView_get_context_data demo_platform (Some ''1'') shop)
     = Inr ([1, 2], Some 7, Some 3)"
  by (simp add: ProductListTemplateView_get_context_data_def get_page_def page_def
      validate_number_def Paginator_def num_pages_def Paginator_count_def ascii_int_def
      ascii_strip_def ascii_isspace_def ascii_digit_def Sum_agg_def page_total_quantity_def
      shop_def Let_def demo_platform_def)

text \<open>
  Claim C6. The product index shows a valid page for every page parameter and never
  fails: page 1 when the parameter is absent or \<^verbatim>\<open>int\<close> refuses it, the page asked for when
  it exists, the last page for every other integer (zero and negative numbers included).
  The customers list shows page 1 for an absent or empty parameter, the page asked for
  when it exists, the last page for \<open>last\<close>, and answers every other parameter with a 404
  response.
\<close>

theorem page_parameter_handling:
  "index pf page_param d =
     Inr (page_of_two (product_rows pf (products d))
            (index_page_number (py_int pf)
               (num_pages (Paginator (product_rows pf (products d)) 2)) page_param)) \<and>
   1 \<le> index_page_number (py_int pf)
          (num_pages (Paginator (product_rows pf (products d)) 2)) page_param \<and>
   index_page_number (py_int pf) (num_pages (Paginator (product_rows pf (products d)) 2)) page_param
     \<le> int (num_pages (Paginator (product_rows pf (products d)) 2)) \<and>
   (list_page_number (py_int pf)
      (num_pages (Paginator (CustomersListView_get_queryset pf search d) 2)) page_param = None
      \<longrightarrow> dispatch (CustomersListView_get_context_data pf search page_param d) = NotFound404) \<and>
   (\<forall>n. list_page_number (py_int pf)
          (num_pages (Paginator (CustomersListView_get_queryset pf search d) 2)) page_param = Some n
      \<longrightarrow> (\<exists>ctx. dispatch (CustomersListView_get_context_data pf search page_param d) = Ok ctx \<and>
             ctx_page_number ctx = n \<and>
             ctx_customers ctx =
               page_object_list (page_of_two (CustomersListView_get_queryset pf search d) n)))"
proof (intro conjI)
  show "index pf page_param d =
     Inr (page_of_two (product_rows pf (products d))
            (index_page_number (py_int pf)
               (num_pages (Paginator (product_rows pf (products d)) 2)) page_param))"
    by (simp add: index_def get_page_two Let_def)
  show "1 \<le> index_page_number (py_int pf)
          (num_pages (Paginator (product_rows pf (products d)) 2)) page_param"
    and "index_page_number (py_int pf)
          (num_pages (Paginator (product_rows pf (products d)) 2)) page_param
     \<le> int (num_pages (Paginator (product_rows pf (products d)) 2))"
    using index_page_number_valid [OF num_pages_two_pos] by blast+
  show "list_page_number (py_int pf)
      (num_pages (Paginator (CustomersListView_get_queryset pf search d) 2)) page_param = None
      \<longrightarrow> dispatch (CustomersListView_get_context_data pf search page_param d) = NotFound404"
    by (simp add: CustomersListView_get_context_data_def paginate_queryset_two dispatch_def)
  show "\<forall>n. list_page_number (py_int pf)
          (num_pages (Paginator (CustomersListView_get_queryset pf search d) 2)) page_param = Some n
      \<longrightarrow> (\<exists>ctx. dispatch (CustomersListView_get_context_data pf search page_param d) = Ok ctx \<and>
             ctx_page_number ctx = n \<and>
             ctx_customers ctx =
               page_object_list (page_of_two (CustomersListView_get_queryset pf search d) n))"
    by (simp add: CustomersListView_get_context_data_def paginate_queryset_two dispatch_def
        page_of_two_def Let_def)
qed

text \<open>
  At the example (three products and three customers, two pages each): in the index, no
  parameter and \<open>two\<close> give page 1 with two products, and \<open>2\<close>, \<open>7\<close> and \<open>-1\<close> give page
  2, the last, with one; in the customers list, \<open>7\<close> is answered with 404 and \<open>last\<close>
  with page 2.
\<close>

theorem page_parameter_handling_witness:
  "map_sum id (\<lambda>pg. (number pg, length (page_object_list pg))) (index demo_platform None shop)
     = Inr (1, 2) \<and>
   map_sum id (\<lambda>pg. (number pg, length (page_object_list pg))) (index demo_platform (Some ''two'') shop)
     = Inr (1, 2) \<and>
   map_sum id (\<lambda>pg. (number pg, length (page_object_list pg))) (index demo_platform (Some ''2'') shop)
     = Inr (2, 1) \<and>
   map_sum id (\<lambda>pg. (number pg, length (page_object_list pg))) (index demo_platform (Some ''7'') shop)
     = Inr (2, 1) \<and>
   map_sum id (\<lambda>pg. (number pg, length (page_object_list pg))) (index demo_platform (Some ''-1'') shop)
     = Inr (2, 1) \<and>
   list_page_number (py_int demo_platform)
     (num_pages (Paginator (CustomersListView_get_queryset demo_platform None shop) 2)) (Some ''7'') = None \<and>
   dispatch (CustomersListView_get_context_data demo_platform None (Some ''7'') shop) = NotFound404 \<and>
   list_page_number (py_int demo_platform)
     (num_pages (Paginator (CustomersListView_get_queryset demo_platform None shop) 2)) (Some ''last'')
     = Some 2 \<and>
   (case dispatch (CustomersListView_get_context_data demo_platform None (Some ''last'') shop) of
      Ok ctx \<Rightarrow> ctx_page_number ctx = 2 \<and> length (ctx_customers ctx) = 1
    | NotFound404 \<Rightarrow> False
    | Unhandled ex \<Rightarrow> False)"
  using page_parameter_handling [of demo_platform None shop None]
    page_parameter_handling [of demo_platform "Some ''two''" shop None]
    page_parameter_handling [of demo_platform "Some ''2''" shop None]
    page_parameter_handling [of demo_platform "Some ''7''" shop None]
    page_parameter_handling [of demo_platform "Some ''-1''" shop None]
    page_parameter_handling [of demo_platform "Some ''last''" shop None]
  by (simp add: index_def get_page_def page_def validate_number_def Paginator_def num_pages_def
      Paginator_count_def ascii_int_def ascii_strip_def ascii_isspace_def ascii_digit_def shop_def
      list_page_number_def CustomersListView_get_context_data_def
      CustomersListView_get_queryset_def annotate_total_revenue_def paginate_queryset_def
      dispatch_def Let_def page_of_two_def index_page_number_def demo_platform_def)

text \<open>
  The customers list does answer with an error: a parameter that is no integer, page 0
  and a page beyond the last are 404 responses. And the index does not go to the nearest
  page for 0: of its two pages it shows the second.
\<close>

theorem customers_list_rejects_pages:
  "dispatch (CustomersListView_get_context_data demo_platform None (Some ''two'') shop) = NotFound404 \<and>
   dispatch (CustomersListView_get_context_data demo_platform None (Some ''0'') shop) = NotFound404 \<and>
   dispatch (CustomersListView_get_context_data demo_platform None (Some ''3'') shop) = NotFound404 \<and>
   map_sum id number (index demo_platform (Some ''0'') shop) = Inr 2"
  by (simp add: CustomersListView_get_context_data_def paginate_queryset_def dispatch_def
      ascii_int_def ascii_strip_def ascii_isspace_def ascii_digit_def
      CustomersListView_get_queryset_def annotate_total_revenue_def shop_def
      index_def get_page_def page_def validate_number_def Paginator_def num_pages_def
      Paginator_count_def Let_def demo_platform_def)

subsection \<open>Lookups\<close>

lemma objects_get_absent:
  "\<not> list_ex P rows \<Longrightarrow> objects_get P rows = Inl DoesNotExist"
  by (induction rows) (simp_all add: objects_get_def)

lemma objects_get_present:
  "list_ex P rows \<Longrightarrow> \<exists>x. objects_get P rows = Inr x \<and> P x \<and> x \<in> set rows"
  by (induction rows) (auto simp: objects_get_def)

text \<open>
  Claim C9. For a customer id that does not exist, the customer detail view and the
  customer delete view answer with a standard 404 response, and the customer update
  view (GET and POST) raises the lookup error \<open>DoesNotExist\<close>, which nothing handles. For
  an id that exists each of them answers.
\<close>

theorem customer_lookup_of_absent_id:
  "(\<not> list_ex (\<lambda>c. customer_pk c = pk) (customers d) \<longrightarrow>
      dispatch (CustomerDetailView_get_object pk d) = NotFound404 \<and>
      dispatch (CustomerDetailView_get_context_data pk d) = NotFound404 \<and>
      dispatch (CustomerDeleteView_get pk d) = NotFound404 \<and>
      dispatch (CustomerUpdateView_get_object pk d) = Unhandled DoesNotExist \<and>
      dispatch (CustomerUpdateView_get pk d) = Unhandled DoesNotExist \<and>
      dispatch (CustomerUpdateView_post pk form d) = Unhandled DoesNotExist) \<and>
   (list_ex (\<lambda>c. customer_pk c = pk) (customers d) \<longrightarrow>
      (\<exists>ctx. dispatch (CustomerDetailView_get_context_data pk d) = Ok ctx) \<and>
      (\<exists>r. dispatch (CustomerDeleteView_get pk d) = Ok r) \<and>
      (\<exists>r. dispatch (CustomerUpdateView_get pk d) = Ok r) \<and>
      (\<exists>r. dispatch (CustomerUpdateView_post pk form d) = Ok r))"
proof (intro conjI impI)
  assume absent: "\<not> list_ex (\<lambda>c. customer_pk c = pk) (customers d)"
  note a = objects_get_absent [OF absent]
  show "dispatch (CustomerDetailView_get_object pk d) = NotFound404"
    by (simp add: a CustomerDetailView_get_object_def get_object_or_404_def dispatch_def)
  show "dispatch (CustomerDetailView_get_context_data pk d) = NotFound404"
    by (simp add: a CustomerDetailView_get_context_data_def CustomerDetailView_get_object_def
        get_object_or_404_def dispatch_def)
  show "dispatch (CustomerDeleteView_get pk d) = NotFound404"
    by (simp add: a CustomerDeleteView_get_def SingleObjectMixin_get_object_def dispatch_def)
  show "dispatch (CustomerUpdateView_get_object pk d) = Unhandled DoesNotExist"
    by (simp add: a CustomerUpdateView_get_object_def dispatch_def)
  show "dispatch (CustomerUpdateView_get pk d) = Unhandled DoesNotExist"
    by (simp add: a CustomerUpdateView_get_def CustomerUpdateView_get_object_def dispatch_def)
  show "dispatch (CustomerUpdateView_post pk form d) = Unhandled DoesNotExist"
    by (simp add: a CustomerUpdateView_post_def CustomerUpdateView_get_object_def dispatch_def)
next
  assume "list_ex (\<lambda>c. customer_pk c = pk) (customers d)"
  from objects_get_present [OF this] obtain c
    where c: "objects_get (\<lambda>c. customer_pk c = pk) (customers d) = Inr c" by blast
  show "\<exists>ctx. dispatch (CustomerDetailView_get_context_data pk d) = Ok ctx"
    by (simp add: c CustomerDetailView_get_context_data_def CustomerDetailView_get_object_def
        get_object_or_404_def dispatch_def)
  show "\<exists>r. dispatch (CustomerDeleteView_get pk d) = Ok r"
    by (simp add: c CustomerDeleteView_get_def SingleObjectMixin_get_object_def dispatch_def)
  show "\<exists>r. dispatch (CustomerUpdateView_get pk d) = Ok r"
    by (simp add: c CustomerUpdateView_get_def CustomerUpdateView_get_object_def dispatch_def)
  show "\<exists>r. dispatch (CustomerUpdateView_post pk form d) = Ok r"
    by (cases form)
      (simp_all add: c CustomerUpdateView_post_def CustomerUpdateView_get_object_def dispatch_def)
qed

text \<open>
  At the example: no customer has the id 9, customer 2 exists, and deleting customer 2
  leaves customers 1 and 3.
\<close>

theorem customer_lookup_of_absent_id_witness:
  "\<not> list_ex (\<lambda>c. customer_pk c = 9) (customers shop) \<and>
   dispatch (CustomerDetailView_get_context_data 9 shop) = NotFound404 \<and>
   dispatch (CustomerUpdateView_get 9 shop) = Unhandled DoesNotExist \<and>
   dispatch (CustomerUpdateView_post 9 None shop) = Unhandled DoesNotExist \<and>
   list_ex (\<lambda>c. customer_pk c = 2) (customers shop) \<and>
   dispatch (CustomerUpdateView_get 2 shop) = Ok (Rendered ''blog/customer/update-customer.html'' []) \<and>
   map (customer_pk) (customers (snd (projr (CustomerDeleteView_get 2 shop)))) = [1, 3]"
  using customer_lookup_of_absent_id [of 9 shop None] customer_lookup_of_absent_id [of 2 shop None]
  by (simp add: shop_def dispatch_def CustomerDetailView_get_context_data_def
      CustomerDetailView_get_object_def get_object_or_404_def objects_get_def
      CustomerUpdateView_get_def CustomerUpdateView_post_def CustomerUpdateView_get_object_def
      CustomerDeleteView_get_def SingleObjectMixin_get_object_def)

text \<open>
  The delete view does not raise a lookup error for an absent id: it keeps the mixin's
  lookup, which answers 404.
\<close>

theorem delete_of_absent_customer_is_404:
  "dispatch (CustomerDeleteView_get 9 shop) = NotFound404 \<and>
   dispatch (CustomerDeleteView_get 9 shop) \<noteq> Unhandled DoesNotExist"
  by (simp add: shop_def dispatch_def CustomerDeleteView_get_def
      SingleObjectMixin_get_object_def objects_get_def)

text \<open>
  The product views look the slug up with \<^verbatim>\<open>Product.objects.get\<close>, as the customer update
  view does with the id: for a slug that does not exist they raise \<open>DoesNotExist\<close>, not
  \<open>Http404\<close>.
\<close>

lemma product_lookup_of_absent_slug:
  assumes "\<not> list_ex (\<lambda>p. slug p = s) (products d)"
  shows "dispatch (ProductDetailTemplateView_get_context_data s d) = Unhandled DoesNotExist"
    and "dispatch (ProductUpdateView_get s d) = Unhandled DoesNotExist"
    and "dispatch (ProductUpdateView_post s form d) = Unhandled DoesNotExist"
  using objects_get_absent [OF assms]
  by (simp_all add: ProductDetailTemplateView_get_context_data_def ProductUpdateView_get_def
      ProductUpdateView_post_def dispatch_def)

lemma product_lookup_example:
  "dispatch (ProductDetailTemplateView_get_context_data ''nib'' shop) = Unhandled DoesNotExist \<and>
   dispatch (ProductUpdateView_get ''nib'' shop) = Unhandled DoesNotExist \<and>
   dispatch (ProductUpdateView_get ''ink'' shop) = Ok (Rendered ''blog/product/update-product.html'' [])"
  by (simp add: shop_def dispatch_def ProductDetailTemplateView_get_context_data_def
      ProductUpdateView_get_def objects_get_def)

subsection \<open>Registration and verification\<close>

lemma fold_max_ge: "(a::int) \<le> fold max xs a"
proof (induction xs arbitrary: a)
  case Nil
  then show ?case by simp
next
  case (Cons x xs)
  have "a \<le> max x a" by simp
  also have "\<dots> \<le> fold max xs (max x a)" by (rule Cons.IH)
  finally show ?case by simp
qed

lemma fold_max_upper: "x \<in> set xs \<Longrightarrow> (x::int) \<le> fold max xs a"
proof (induction xs arbitrary: a)
  case Nil
  then show ?case by simp
next
  case (Cons y ys)
  show ?case
  proof (cases "x = y")
    case True
    have "x \<le> max y a" using True by simp
    also have "\<dots> \<le> fold max ys (max y a)" by (rule fold_max_ge)
    finally show ?thesis by simp
  next
    case False
    with Cons.prems have "x \<in> set ys" by simp
    from Cons.IH [OF this] show ?thesis by simp
  qed
qed

lemma next_pk_fresh: "\<not> list_ex (\<lambda>row. user_pk row = next_pk us) us"
proof
  assume "list_ex (\<lambda>row. user_pk row = next_pk us) us"
  then obtain row where row: "row \<in> set us" and eq: "user_pk row = next_pk us"
    by (auto simp: list_ex_iff)
  from row have "user_pk row \<in> set (map user_pk us)" by simp
  from fold_max_upper [OF this, of 0] eq show False by (simp add: next_pk_def)
qed

lemma save_new_user:
  assumes "\<not> list_ex (\<lambda>row. user_pk row = user_pk u) us" and "user_pk u' = user_pk u"
  shows "save u' (us @ [u]) = us @ [u']"
proof -
  from assms have "map (\<lambda>row. if user_pk row = user_pk u' then u' else row) us = us"
    by (intro map_idI) (simp add: list_ex_iff)
  with assms show ?thesis by (simp add: save_def)
qed

lemma register_valid:
  fixes e :: env and cd :: cleaned_data and st :: site
  assumes free: "\<not> list_ex (\<lambda>u. user_email u = cd_email cd) (users st)"
  defines "u \<equiv> \<lparr>user_pk = next_pk (users st), first_name = cd_first_name cd,
        user_email = cd_email cd, password = make_password e (cd_password cd),
        is_active = False, is_staff = True, is_superuser = True\<rparr>"
  defines "m \<equiv> \<lparr>subject = ''Verify your email'', to = [cd_email cd],
        content_subtype = ''html'', mail_domain = domain e,
        mail_uid = urlsafe_base64_encode e (next_pk (users st)), mail_token = make_token e u\<rparr>"
  shows "RegisterView_post e (Some cd) st =
           (if deliver e m
            then (Inr (Redirected ''verify_email_done''),
                  st\<lparr>users := users st @ [u], outbox := outbox st @ [m],
                     session_user := Some (next_pk (users st))\<rparr>)
            else (Inl SMTPException, st\<lparr>users := users st @ [u]\<rparr>))"
proof -
  let ?c = "\<lparr>user_pk = next_pk (users st), first_name = cd_first_name cd,
        user_email = cd_email cd, password = make_password e (cd_password cd),
        is_active = True, is_staff = False, is_superuser = False\<rparr>"
  have cu: "create_user e (cd_first_name cd) (cd_email cd) (cd_password cd) (users st)
      = Inr (?c, users st @ [?c])"
    using free by (simp add: create_user_def Let_def)
  have sv: "save u (users st @ [?c]) = users st @ [u]"
    using next_pk_fresh [of "users st"] by (intro save_new_user) (simp_all add: u_def)
  have upd: "?c\<lparr>is_active := False, is_staff := True, is_superuser := True\<rparr> = u"
    by (simp add: u_def)
  show ?thesis
    by (simp add: RegisterView_post_def cu sv [unfolded u_def] Let_def login_def m_def u_def)
qed


lemma register_taken:
  "list_ex (\<lambda>u. user_email u = cd_email cd) (users st) \<Longrightarrow>
   RegisterView_post e (Some cd) st = (Inl IntegrityError, st)"
  by (simp add: RegisterView_post_def create_user_def)

text \<open>
  Claim C8. A valid registration with an email that is free adds exactly one user, with
  the form's email and first name, saved with \<open>is_active\<close> false and with \<open>is_staff\<close> and
  \<open>is_superuser\<close> true, whether or not the mail goes out. No other registration creates a
  user: with a taken email the database refuses the row, and an invalid form is shown
  again.
\<close>

theorem registration_sets_flags:
  "(\<not> list_ex (\<lambda>u. user_email u = cd_email cd) (users st) \<longrightarrow>
      (\<exists>u. users (snd (RegisterView_post e (Some cd) st)) = users st @ [u] \<and>
           user_pk u = next_pk (users st) \<and> user_email u = cd_email cd \<and>
           first_name u = cd_first_name cd \<and>
           \<not> is_active u \<and> is_staff u \<and> is_superuser u)) \<and>
   (list_ex (\<lambda>u. user_email u = cd_email cd) (users st) \<longrightarrow>
      RegisterView_post e (Some cd) st = (Inl IntegrityError, st)) \<and>
   RegisterView_post e None st = (Inr (Rendered ''blog/auth/register.html'' []), st)"
proof (intro conjI impI)
  assume "\<not> list_ex (\<lambda>u. user_email u = cd_email cd) (users st)"
  from register_valid [OF this, of e]
  show "\<exists>u. users (snd (RegisterView_post e (Some cd) st)) = users st @ [u] \<and>
           user_pk u = next_pk (users st) \<and> user_email u = cd_email cd \<and>
           first_name u = cd_first_name cd \<and>
           \<not> is_active u \<and> is_staff u \<and> is_superuser u"
    by (simp split: if_splits)
next
  assume "list_ex (\<lambda>u. user_email u = cd_email cd) (users st)"
  then show "RegisterView_post e (Some cd) st = (Inl IntegrityError, st)"
    by (rule register_taken)
next
  show "RegisterView_post e None st = (Inr (Rendered ''blog/auth/register.html'' []), st)"
    by (simp add: RegisterView_post_def)
qed

text \<open>
  At the example, Bo is added as user 2 with the three flags; a second Ada is refused.
\<close>

theorem registration_sets_flags_witness:
  "\<not> list_ex (\<lambda>u. user_email u = cd_email demo_form) (users demo_site) \<and>
   users (snd (RegisterView_post demo_env (Some demo_form) demo_site)) =
     users demo_site @
     [\<lparr>user_pk = 2, first_name = ''Bo'', user_email = ''bo@shop.example'', password = ''hash:b'',
       is_active = False, is_staff = True, is_superuser = True\<rparr>] \<and>
   list_ex (\<lambda>u. user_email u = cd_email (demo_form\<lparr>cd_email := ''ada@shop.example''\<rparr>)) (users demo_site) \<and>
   RegisterView_post demo_env (Some (demo_form\<lparr>cd_email := ''ada@shop.example''\<rparr>)) demo_site =
     (Inl IntegrityError, demo_site)"
  using registration_sets_flags [of demo_form demo_site demo_env]
    registration_sets_flags [of "demo_form\<lparr>cd_email := ''ada@shop.example''\<rparr>" demo_site demo_env]
  by (simp add: RegisterView_post_def create_user_def save_def next_pk_def login_def
      demo_env_def demo_site_def demo_form_def Let_def)

text \<open>
  Claim C10. Whenever the registration view answers a valid form, the answer is the
  redirect to the verification-pending page, the user it has just created is the
  session's user although still inactive, and the activation mail to the form's address
  is out. It answers whenever the email is free and the mail is delivered.
\<close>

theorem registration_logs_user_in:
  "(\<forall>resp. fst (RegisterView_post e (Some cd) st) = Inr resp \<longrightarrow>
      resp = Redirected ''verify_email_done'' \<and>
      (\<exists>u m. users (snd (RegisterView_post e (Some cd) st)) = users st @ [u] \<and>
           \<not> is_active u \<and>
           session_user (snd (RegisterView_post e (Some cd) st)) = Some (user_pk u) \<and>
           outbox (snd (RegisterView_post e (Some cd) st)) = outbox st @ [m] \<and>
           to m = [cd_email cd])) \<and>
   (\<not> list_ex (\<lambda>u. user_email u = cd_email cd) (users st) \<and> (\<forall>m. deliver e m) \<longrightarrow>
      fst (RegisterView_post e (Some cd) st) = Inr (Redirected ''verify_email_done''))"
proof (intro conjI allI impI)
  fix resp
  assume ok: "fst (RegisterView_post e (Some cd) st) = Inr resp"
  have free: "\<not> list_ex (\<lambda>u. user_email u = cd_email cd) (users st)"
    using ok register_taken [of cd st e] by auto
  note rv = register_valid [OF free, of e]
  from ok rv show "resp = Redirected ''verify_email_done''"
    by (simp split: if_splits)
  from ok rv
  show "\<exists>u m. users (snd (RegisterView_post e (Some cd) st)) = users st @ [u] \<and>
           \<not> is_active u \<and>
           session_user (snd (RegisterView_post e (Some cd) st)) = Some (user_pk u) \<and>
           outbox (snd (RegisterView_post e (Some cd) st)) = outbox st @ [m] \<and>
           to m = [cd_email cd]"
    by (simp split: if_splits)
next
  assume "\<not> list_ex (\<lambda>u. user_email u = cd_email cd) (users st) \<and> (\<forall>m. deliver e m)"
  then show "fst (RegisterView_post e (Some cd) st) = Inr (Redirected ''verify_email_done'')"
    using register_valid [of cd st e] by simp
qed

text \<open>
  At the example: the whole state after Bo has registered.
\<close>

theorem registration_logs_user_in_witness:
  "RegisterView_post demo_env (Some demo_form) demo_site =
     (Inr (Redirected ''verify_email_done''),
      \<lparr>users = users demo_site @
         [\<lparr>user_pk = 2, first_name = ''Bo'', user_email = ''bo@shop.example'', password = ''hash:b'',
           is_active = False, is_staff = True, is_superuser = True\<rparr>],
       session_user = Some 2,
       outbox =
         [\<lparr>subject = ''Verify your email'', to = [''bo@shop.example''], content_subtype = ''html'',
           mail_domain = ''shop.example'', mail_uid = ''Mg'',
           mail_token = ''tok-bo@shop.example''\<rparr>]\<rparr>)"
  using registration_logs_user_in [of demo_env demo_form demo_site]
  by (simp add: RegisterView_post_def create_user_def save_def next_pk_def login_def
      demo_env_def demo_site_def demo_form_def Let_def)

lemma find_user_Some:
  "find (\<lambda>u. user_pk u = pk) us = Some u \<Longrightarrow> u \<in> set us \<and> user_pk u = pk"
  by (induction us) (auto split: if_splits)

lemma save_existing:
  assumes "distinct (map user_pk us)" and "u \<in> set us"
  shows "save (u\<lparr>is_active := True\<rparr>) us =
           map (\<lambda>row. if user_pk row = user_pk u then row\<lparr>is_active := True\<rparr> else row) us"
proof -
  have same: "row = u" if "row \<in> set us" and "user_pk row = user_pk u" for row
    using assms that by (meson distinct_map inj_onD)
  have "map (\<lambda>row. if user_pk row = user_pk u then u\<lparr>is_active := True\<rparr> else row) us =
        map (\<lambda>row. if user_pk row = user_pk u then row\<lparr>is_active := True\<rparr> else row) us"
    by (rule map_cong) (auto dest: same)
  moreover from assms(2) have "list_ex (\<lambda>row. user_pk row = user_pk u) us"
    by (auto simp: list_ex_iff)
  ultimately show ?thesis by (simp add: save_def)
qed

lemma verify_not_confirmed:
  "confirmed_user (py_int pf) e uidb64 token st = None \<Longrightarrow>
   VerifyEmailConfirmView_get pf e uidb64 token st =
     (Inr (Rendered ''blog/auth/email/verify-email-confirm.html'' [''The link is invalid.'']), st)"
  by (auto simp: confirmed_user_def VerifyEmailConfirmView_get_def User_objects_get_def
      split: option.splits if_splits)

lemma verify_confirmed:
  assumes "confirmed_user (py_int pf) e uidb64 token st = Some u"
  shows "u \<in> set (users st) \<and>
         VerifyEmailConfirmView_get pf e uidb64 token st =
           (Inr (Redirected ''verify_email_complete''),
            st\<lparr>users := save (u\<lparr>is_active := True\<rparr>) (users st)\<rparr>)"
proof -
  from assms obtain uid pk where "urlsafe_base64_decode e uidb64 = Some uid"
    and "py_int pf uid = Some pk" and f: "find (\<lambda>u. user_pk u = pk) (users st) = Some u"
    and "check_token e u token"
    by (auto simp: confirmed_user_def split: option.splits if_splits)
  moreover from f have "u \<in> set (users st)" using find_user_Some by blast
  ultimately show ?thesis
    by (simp add: VerifyEmailConfirmView_get_def User_objects_get_def)
qed

text \<open>
  Claim C7. When the link stands for no user (the uid does not decode, decodes to a
  string that \<^verbatim>\<open>int\<close> refuses or to no user's id, or the token check fails) the state is
  left as it was and
  the page with the warning \<open>The link is invalid.\<close> is shown. When it stands for a user,
  the answer is the redirect to the completion page and the state differs in one thing
  only: \<open>is_active\<close> of the row with that user's id is true.
\<close>

theorem verification_fails_closed:
  assumes "distinct (map user_pk (users st))"
  shows "(confirmed_user (py_int pf) e uidb64 token st = None \<longrightarrow>
            VerifyEmailConfirmView_get pf e uidb64 token st =
              (Inr (Rendered ''blog/auth/email/verify-email-confirm.html''
                      [''The link is invalid.'']), st)) \<and>
         (\<forall>u. confirmed_user (py_int pf) e uidb64 token st = Some u \<longrightarrow>
            u \<in> set (users st) \<and>
            VerifyEmailConfirmView_get pf e uidb64 token st =
              (Inr (Redirected ''verify_email_complete''),
               st\<lparr>users := map (\<lambda>row. if user_pk row = user_pk u
                                       then row\<lparr>is_active := True\<rparr> else row) (users st)\<rparr>))"
proof (intro conjI allI impI)
  assume "confirmed_user (py_int pf) e uidb64 token st = None"
  then show "VerifyEmailConfirmView_get pf e uidb64 token st =
      (Inr (Rendered ''blog/auth/email/verify-email-confirm.html'' [''The link is invalid.'']), st)"
    by (rule verify_not_confirmed)
next
  fix u
  assume c: "confirmed_user (py_int pf) e uidb64 token st = Some u"
  from verify_confirmed [OF c] show "u \<in> set (users st)" by blast
  with verify_confirmed [OF c] save_existing [OF assms]
  show "VerifyEmailConfirmView_get pf e uidb64 token st =
      (Inr (Redirected ''verify_email_complete''),
       st\<lparr>users := map (\<lambda>row. if user_pk row = user_pk u
                               then row\<lparr>is_active := True\<rparr> else row) (users st)\<rparr>)"
    by simp
qed

lemma pending_site_eq:
  "pending_site =
      \<lparr>users =
         [\<lparr>user_pk = 1, first_name = ''Ada'', user_email = ''ada@shop.example'',
           password = ''hash:a'', is_active = True, is_staff = False, is_superuser = False\<rparr>,
          \<lparr>user_pk = 2, first_name = ''Bo'', user_email = ''bo@shop.example'', password = ''hash:b'',
           is_active = False, is_staff = True, is_superuser = True\<rparr>],
       session_user = Some 2,
       outbox =
         [\<lparr>subject = ''Verify your email'', to = [''bo@shop.example''], content_subtype = ''html'',
           mail_domain = ''shop.example'', mail_uid = ''Mg'',
           mail_token = ''tok-bo@shop.example''\<rparr>]\<rparr>"
  by (simp add: pending_site_def RegisterView_post_def create_user_def save_def next_pk_def
      login_def demo_env_def demo_site_def demo_form_def Let_def)

text \<open>
  At the example, after Bo has registered: Bo's link with Bo's token activates Bo and
  changes nothing else; Ada's token, the id 9 of no user, a uid that decodes to \<open>x\<close> and
  a uid that does not decode at all leave the state unchanged.
\<close>

theorem verification_fails_closed_witness:
  "distinct (map user_pk (users pending_site)) \<and>
   map is_active (users pending_site) = [True, False] \<and>
   VerifyEmailConfirmView_get demo_platform demo_env ''Mg'' ''tok-bo@shop.example'' pending_site =
     (Inr (Redirected ''verify_email_complete''),
      pending_site\<lparr>users := [hd (users pending_site),
                              (last (users pending_site))\<lparr>is_active := True\<rparr>]\<rparr>) \<and>
   VerifyEmailConfirmView_get demo_platform demo_env ''Mg'' ''tok-ada@shop.example'' pending_site =
     (Inr (Rendered ''blog/auth/email/verify-email-confirm.html'' [''The link is invalid.'']),
      pending_site) \<and>
   VerifyEmailConfirmView_get demo_platform demo_env ''OQ'' ''tok-bo@shop.example'' pending_site =
     (Inr (Rendered ''blog/auth/email/verify-email-confirm.html'' [''The link is invalid.'']),
      pending_site) \<and>
   VerifyEmailConfirmView_get demo_platform demo_env ''eA'' ''tok-bo@shop.example'' pending_site =
     (Inr (Rendered ''blog/auth/email/verify-email-confirm.html'' [''The link is invalid.'']),
      pending_site) \<and>
   VerifyEmailConfirmView_get demo_platform demo_env ''!'' ''tok-bo@shop.example'' pending_site =
     (Inr (Rendered ''blog/auth/email/verify-email-confirm.html'' [''The link is invalid.'']),
      pending_site)"
  using verification_fails_closed [of pending_site demo_platform demo_env "''Mg''" "''tok-bo@shop.example''"]
    verification_fails_closed [of pending_site demo_platform demo_env "''Mg''" "''tok-ada@shop.example''"]
  by (simp add: VerifyEmailConfirmView_get_def User_objects_get_def confirmed_user_def save_def
      ascii_int_def ascii_strip_def ascii_isspace_def ascii_digit_def demo_platform_def
      demo_env_def pending_site_eq)

end
